theory Spec2Isabelle
  imports Main "HOL-Library.Log_Nat"
begin

section \<open>Errors\<close>

text \<open>
  Every exception that \<^verbatim>\<open>Executor.__init__\<close> or \<^verbatim>\<open>Executor.forward\<close> can raise is a
  value. The two formatted messages of the source carry their arguments instead of
  the formatted text: the arity assertion carries the expected input names, the
  unsupported-type error carries the input name and the type.
\<close>

datatype pytype =
    TyList | TyTuple | TyNdarray | TyTensor | TyDataFrame
  | TySubclass string pytype
  | TyClass string

datatype error =
    KeyError string
  | IndexError
  | AttributeError string
  | ArityAssertion "string list"
  | StringLengthAssertion
  | UnsupportedType string pytype
  | TypeError string
  | LibraryError string

section \<open>Variable name resolution (\<^verbatim>\<open>_fix_var_naming\<close>)\<close>

record variable =
  raw_name :: string
  full_name :: string

record operator =
  op_full_name :: string
  inputs :: "variable list"
  outputs :: "variable list"

text \<open>
  The local dictionary \<^verbatim>\<open>map\<close> is an association list in insertion order. The
  source only inserts a key that is absent, so the keys stay distinct and
  \<^verbatim>\<open>len(map)\<close> is the length of the list.
\<close>

type_synonym name_map = "(string \<times> string) list"

definition record_name :: "variable \<Rightarrow> name_map \<Rightarrow> string \<Rightarrow> name_map" where
  \<comment> \<open>\<^verbatim>\<open>if i.raw_name == name and name not in map: map[i.raw_name] = i.full_name\<close>\<close>
  "record_name i m name =
     (if raw_name i = name \<and> map_of m name = None
      then m @ [(raw_name i, full_name i)] else m)"

definition scan_variable :: "string list \<Rightarrow> name_map \<Rightarrow> variable \<Rightarrow> name_map" where
  \<comment> \<open>\<^verbatim>\<open>for name in names: ...\<close>\<close>
  "scan_variable names m i = foldl (record_name i) m names"

definition side :: "string \<Rightarrow> operator \<Rightarrow> variable list" where
  \<comment> \<open>\<^verbatim>\<open>iter = op.inputs if mod == "input" else op.outputs\<close>\<close>
  "side md op = (if md = ''input'' then inputs op else outputs op)"

definition scan_operator :: "string \<Rightarrow> string list \<Rightarrow> name_map \<Rightarrow> operator \<Rightarrow> name_map" where
  \<comment> \<open>\<^verbatim>\<open>for i in iter: ...\<close>\<close>
  "scan_operator md names m op = foldl (scan_variable names) m (side md op)"

fun scan_operators :: "string \<Rightarrow> string list \<Rightarrow> operator list \<Rightarrow> name_map \<Rightarrow> name_map" where
  \<comment> \<open>\<^verbatim>\<open>for op in operators: ...; if len(map) == len(names): break\<close>\<close>
  "scan_operators md names [] m = m"
| "scan_operators md names (op # ops) m =
     (let m' = scan_operator md names m op
      in if length m' = length names then m' else scan_operators md names ops m')"

fun lookup_names :: "name_map \<Rightarrow> string list \<Rightarrow> error + string list" where
  \<comment> \<open>\<^verbatim>\<open>for name in names: new_names.append(map[name])\<close>\<close>
  "lookup_names m [] = Inr []"
| "lookup_names m (name # names) =
     (case map_of m name of
        None \<Rightarrow> Inl (KeyError name)
      | Some f \<Rightarrow> (case lookup_names m names of
                     Inl e \<Rightarrow> Inl e
                   | Inr fs \<Rightarrow> Inr (f # fs)))"

definition fix_var_naming :: "operator list \<Rightarrow> string list \<Rightarrow> string \<Rightarrow> error + string list" where
  "fix_var_naming operators names md =
     (let m = scan_operators md names operators []
      in if m = [] then Inr names else lookup_names m names)"


section \<open>Values\<close>

subsection \<open>Floating-point payloads\<close>

text \<open>
  A finite floating-point value is the rational it denotes. Rounding to a binary
  format with \<open>p\<close> significand bits and exponent range \<open>emin .. emax\<close> is IEEE 754
  round-to-nearest, ties to even, with gradual underflow and overflow to infinity;
  the sign of zero is not represented.
\<close>

datatype flt = Fin rat | PosInf | NegInf | NaN

definition pow2 :: "int \<Rightarrow> rat" where
  "pow2 e = (if 0 \<le> e then 2 ^ nat e else 1 / 2 ^ nat (- e))"

definition ilog2 :: "rat \<Rightarrow> int" where
  \<comment> \<open>\<open>\<lfloor>log\<^sub>2 x\<rfloor>\<close> for \<open>x > 0\<close>\<close>
  "ilog2 x =
     (if 1 \<le> x then int (floorlog 2 (nat \<lfloor>x\<rfloor>)) - 1
      else - int (floorlog 2 (nat (\<lceil>1 / x\<rceil> - 1))))"

definition round_half_even :: "rat \<Rightarrow> int" where
  "round_half_even x =
     (let f = \<lfloor>x\<rfloor>; d = x - of_int f
      in if d < 1 / 2 then f else if 1 / 2 < d then f + 1 else if even f then f else f + 1)"

definition round_to_format :: "nat \<Rightarrow> int \<Rightarrow> int \<Rightarrow> rat \<Rightarrow> flt" where
  "round_to_format p emin emax x =
     (if x = 0 then Fin 0
      else
        let a = \<bar>x\<bar>;
            e = max (ilog2 a) emin;
            q = e - (int p - 1);
            y = of_int (round_half_even (a / pow2 q)) * pow2 q
        in if pow2 (emax + 1) \<le> y then (if 0 < x then PosInf else NegInf)
           else Fin (if 0 < x then y else - y))"

definition round64 :: "rat \<Rightarrow> flt" where
  "round64 = round_to_format 53 (- 1022) 1023"

definition round32 :: "rat \<Rightarrow> flt" where
  "round32 = round_to_format 24 (- 126) 127"

definition to_float32 :: "flt \<Rightarrow> flt" where
  "to_float32 x = (case x of Fin r \<Rightarrow> round32 r | _ \<Rightarrow> x)"

definition true_divide64 :: "int \<Rightarrow> int \<Rightarrow> flt" where
  \<comment> \<open>numpy's \<^verbatim>\<open>/\<close> on an int64 array and a non-zero Python int: both operands
      are converted to float64 and divided in float64\<close>
  "true_divide64 a b =
     (case (round64 (of_int a), round64 (of_int b)) of
        (Fin x, Fin y) \<Rightarrow> round64 (x / y)
      | _ \<Rightarrow> NaN)"

subsection \<open>Arrays, tensors, frames\<close>

datatype scalar =
    SBool bool
  | SInt int
  | SFloat flt
  | SComplex flt flt
  | SStr string
  | STime int  \<comment> \<open>datetime64[ns]: the stored int64 count of nanoseconds since the epoch\<close>
  | SObj string

datatype np_dtype =
    NpBool | NpInt8 | NpInt16 | NpInt32 | NpInt64
  | NpUInt8 | NpUInt16 | NpUInt32 | NpUInt64
  | NpFloat16 | NpFloat32 | NpFloat64
  | NpComplex64 | NpComplex128
  | NpDatetime64 | NpTimedelta64
  | NpObject | NpBytes | NpUnicode | NpVoid

fun kind :: "np_dtype \<Rightarrow> char" where
  \<comment> \<open>\<^verbatim>\<open>dtype.kind\<close>\<close>
  "kind NpBool = CHR ''b''"
| "kind NpInt8 = CHR ''i''"
| "kind NpInt16 = CHR ''i''"
| "kind NpInt32 = CHR ''i''"
| "kind NpInt64 = CHR ''i''"
| "kind NpUInt8 = CHR ''u''"
| "kind NpUInt16 = CHR ''u''"
| "kind NpUInt32 = CHR ''u''"
| "kind NpUInt64 = CHR ''u''"
| "kind NpFloat16 = CHR ''f''"
| "kind NpFloat32 = CHR ''f''"
| "kind NpFloat64 = CHR ''f''"
| "kind NpComplex64 = CHR ''c''"
| "kind NpComplex128 = CHR ''c''"
| "kind NpDatetime64 = CHR ''M''"
| "kind NpTimedelta64 = CHR ''m''"
| "kind NpObject = CHR ''O''"
| "kind NpBytes = CHR ''S''"
| "kind NpUnicode = CHR ''U''"
| "kind NpVoid = CHR ''V''"

datatype torch_dtype =
    TBool | TInt8 | TInt16 | TInt32 | TInt64 | TUInt8
  | TFloat16 | TFloat32 | TFloat64 | TComplex64 | TComplex128

datatype device = Device (dev_type: string) (dev_index: "nat option")

definition cpu :: device where
  "cpu = Device ''cpu'' None"

record ndarray =
  nd_dtype :: np_dtype
  nd_shape :: "nat list"
  nd_data :: "scalar list"

record tensor =
  t_dtype :: torch_dtype
  t_shape :: "nat list"
  t_data :: "scalar list"
  t_device :: device

text \<open>
  A DataFrame is its labelled columns in order; a column holds the one-dimensional
  array that \<^verbatim>\<open>to_numpy()\<close> gives for it.
\<close>

type_synonym frame = "(string \<times> ndarray) list"

text \<open>
  A Python value with its runtime class. \<open>VList\<close>, \<open>VTuple\<close>, \<open>VNdarray\<close> and
  \<open>VTensor\<close> are instances of exactly \<^verbatim>\<open>list\<close>, \<^verbatim>\<open>tuple\<close>, \<^verbatim>\<open>numpy.ndarray\<close> and
  \<^verbatim>\<open>torch.Tensor\<close>; \<open>VSubclass c v\<close> is an instance of a proper subclass \<open>c\<close> of the
  class of \<open>v\<close>, with the contents of \<open>v\<close>; \<open>VObject c\<close> is an instance of any other
  class \<open>c\<close>.
\<close>

datatype pyval =
    VList "pyval list"
  | VTuple "pyval list"
  | VNdarray ndarray
  | VTensor tensor
  | VDataFrame frame
  | VSubclass string pyval
  | VObject string

fun py_type :: "pyval \<Rightarrow> pytype" where
  \<comment> \<open>\<^verbatim>\<open>type(v)\<close>\<close>
  "py_type (VList xs) = TyList"
| "py_type (VTuple xs) = TyTuple"
| "py_type (VNdarray a) = TyNdarray"
| "py_type (VTensor t) = TyTensor"
| "py_type (VDataFrame f) = TyDataFrame"
| "py_type (VSubclass c v) = TySubclass c (py_type v)"
| "py_type (VObject c) = TyClass c"

fun as_dataframe :: "pyval \<Rightarrow> frame option" where
  \<comment> \<open>\<^verbatim>\<open>isinstance(v, DataFrame)\<close>, with the frame when it holds\<close>
  "as_dataframe (VDataFrame f) = Some f"
| "as_dataframe (VSubclass c v) = as_dataframe v"
| "as_dataframe v = None"

type_synonym variable_map = "string \<rightharpoonup> pyval"


section \<open>The executor\<close>

text \<open>
  What \<^verbatim>\<open>_executor.py\<close> imports and does not define is a parameter of the model:
  whether pandas is installed (\<^verbatim>\<open>DataFrame is not None\<close>), the constant
  \<^verbatim>\<open>constants.SUPPORTED_STRING_TYPES\<close>, the helper \<^verbatim>\<open>from_strings_to_ints\<close>, the value
  of \<^verbatim>\<open>get_device(self)\<close>, numpy's \<^verbatim>\<open>np.array\<close> on a list, pandas'
  \<^verbatim>\<open>to_numpy()\<close> of a selection of several columns, and \<^verbatim>\<open>__getitem__\<close> of an
  object that is neither a list nor a tuple.
\<close>

record env =
  pandas_installed :: bool
  SUPPORTED_STRING_TYPES :: "char list"
  from_strings_to_ints :: "ndarray \<Rightarrow> nat \<Rightarrow> error + ndarray"
  get_device :: "device option"
  np_array :: "pyval list \<Rightarrow> error + ndarray"
  frame_to_numpy :: "ndarray list \<Rightarrow> ndarray"
  object_getitem :: "pyval \<Rightarrow> nat \<Rightarrow> error + pyval"

text \<open>
  An operator's transform is opaque. It may read and change state of its own
  (buffers, random generators), so a call takes the state \<open>'s\<close> and returns the
  next one beside its result or its exception.
\<close>

record 's module =
  m_inputs :: "string list"
  m_outputs :: "string list"
  m_call :: "pyval list \<Rightarrow> 's \<Rightarrow> (error + pyval) \<times> 's"

text \<open>
  \<open>check_dataframe_to_array\<close> is read by \<^verbatim>\<open>forward\<close> and never assigned in
  \<^verbatim>\<open>_executor.py\<close>: \<open>None\<close> is the attribute not set, where reading it raises
  \<^verbatim>\<open>AttributeError\<close>.
\<close>

record 's executor =
  input_names :: "string list"
  output_names :: "string list"
  operators :: "'s module list"
  max_string_length :: "nat option"
  check_dataframe_to_array :: "bool option"

subsection \<open>Construction\<close>

fun lookup_modules :: "(string \<rightharpoonup> 's module) \<Rightarrow> operator list \<Rightarrow> error + 's module list" where
  \<comment> \<open>\<^verbatim>\<open>[operator_map[operator.full_name] for operator in operators]\<close>\<close>
  "lookup_modules operator_map [] = Inr []"
| "lookup_modules operator_map (op # ops) =
     (case operator_map (op_full_name op) of
        None \<Rightarrow> Inl (KeyError (op_full_name op))
      | Some md \<Rightarrow> (case lookup_modules operator_map ops of
                      Inl e \<Rightarrow> Inl e
                    | Inr mds \<Rightarrow> Inr (md # mds)))"

definition executor_init ::
  "string \<Rightarrow> string list \<Rightarrow> string list \<Rightarrow> (string \<rightharpoonup> 's module) \<Rightarrow> operator list \<Rightarrow>
   (string \<rightharpoonup> nat) \<Rightarrow> error + 's executor" where
  \<comment> \<open>the first argument is the key \<^verbatim>\<open>constants.MAX_STRING_LENGTH\<close>\<close>
  "executor_init MAX_STRING_LENGTH names_in names_out operator_map ops extra_config =
     (case fix_var_naming ops names_in ''input'' of
        Inl e \<Rightarrow> Inl e
      | Inr ins \<Rightarrow>
          (case fix_var_naming (rev ops) names_out ''output'' of
             Inl e \<Rightarrow> Inl e
           | Inr outs \<Rightarrow>
               (case lookup_modules operator_map ops of
                  Inl e \<Rightarrow> Inl e
                | Inr mds \<Rightarrow>
                    Inr \<lparr> input_names = ins, output_names = outs, operators = mds,
                          max_string_length = extra_config MAX_STRING_LENGTH,
                          check_dataframe_to_array = None \<rparr>)))"

subsection \<open>Arity check and DataFrame splitting\<close>

definition arity_condition :: "env \<Rightarrow> 's executor \<Rightarrow> pyval list \<Rightarrow> error + bool" where
  \<comment> \<open>the condition of the \<^verbatim>\<open>assert\<close>, evaluated left to right with short circuit\<close>
  "arity_condition en ex inps =
     (if length (input_names ex) = length inps then Inr True
      else if \<not> pandas_installed en then Inr False
      else case inps of
        [] \<Rightarrow> Inl IndexError
      | x # _ \<Rightarrow>
          (case as_dataframe x of
             None \<Rightarrow> Inr False
           | Some df \<Rightarrow>
               (case check_dataframe_to_array ex of
                  None \<Rightarrow> Inl (AttributeError ''check_dataframe_to_array'')
                | Some flag \<Rightarrow>
                    if flag then Inr False
                    else Inr (length (input_names ex) = length df))))"

definition reshape_column :: "ndarray \<Rightarrow> ndarray" where
  \<comment> \<open>\<^verbatim>\<open>.reshape(-1, 1)\<close>\<close>
  "reshape_column a = a \<lparr> nd_shape := [prod_list (nd_shape a), 1] \<rparr>"

definition frame_getitem :: "env \<Rightarrow> frame \<Rightarrow> string \<Rightarrow> ndarray" where
  \<comment> \<open>\<^verbatim>\<open>df[label].to_numpy()\<close>: the column with that label, or all of them when
      the label is repeated\<close>
  "frame_getitem en df label =
     (case filter (\<lambda>c. fst c = label) df of
        [c] \<Rightarrow> snd c
      | cs \<Rightarrow> frame_to_numpy en (map snd cs))"

definition split_dataframe :: "env \<Rightarrow> frame \<Rightarrow> pyval list" where
  "split_dataframe en df =
     (let names = map fst df;
          splits = map (\<lambda>idx. frame_getitem en df (names ! idx)) [0 ..< length names]
      in map (\<lambda>a. VNdarray (reshape_column a)) splits)"

definition select_inputs :: "env \<Rightarrow> pyval list \<Rightarrow> error + pyval list" where
  \<comment> \<open>\<^verbatim>\<open>if DataFrame is not None and isinstance(inputs[0], DataFrame): ...\<close>\<close>
  "select_inputs en inps =
     (if \<not> pandas_installed en then Inr inps
      else case inps of
        [] \<Rightarrow> Inl IndexError
      | x # _ \<Rightarrow>
          (case as_dataframe x of
             None \<Rightarrow> Inr inps
           | Some df \<Rightarrow> Inr (split_dataframe en df)))"

subsection \<open>Input normalisation\<close>

definition epoch_ns :: int where
  \<comment> \<open>\<^verbatim>\<open>np.datetime64("1970-01-01T00:00:00.000000000")\<close>\<close>
  "epoch_ns = 0"

fun seconds_since_epoch :: "scalar \<Rightarrow> scalar" where
  \<comment> \<open>\<^verbatim>\<open>(x - epoch).astype(np.int64) / 1000000000\<close> on one element\<close>
  "seconds_since_epoch (STime ns) = SFloat (true_divide64 (ns - epoch_ns) 1000000000)"
| "seconds_since_epoch x = x"

definition datetime_to_seconds :: "ndarray \<Rightarrow> ndarray" where
  "datetime_to_seconds a =
     \<lparr> nd_dtype = NpFloat64, nd_shape = nd_shape a,
       nd_data = map seconds_since_epoch (nd_data a) \<rparr>"

fun torch_dtype_of :: "np_dtype \<Rightarrow> torch_dtype option" where
  \<comment> \<open>the element types \<^verbatim>\<open>torch.from_numpy\<close> accepts\<close>
  "torch_dtype_of NpBool = Some TBool"
| "torch_dtype_of NpInt8 = Some TInt8"
| "torch_dtype_of NpInt16 = Some TInt16"
| "torch_dtype_of NpInt32 = Some TInt32"
| "torch_dtype_of NpInt64 = Some TInt64"
| "torch_dtype_of NpUInt8 = Some TUInt8"
| "torch_dtype_of NpFloat16 = Some TFloat16"
| "torch_dtype_of NpFloat32 = Some TFloat32"
| "torch_dtype_of NpFloat64 = Some TFloat64"
| "torch_dtype_of NpComplex64 = Some TComplex64"
| "torch_dtype_of NpComplex128 = Some TComplex128"
| "torch_dtype_of d = None"

definition from_numpy :: "ndarray \<Rightarrow> error + tensor" where
  "from_numpy a =
     (case torch_dtype_of (nd_dtype a) of
        None \<Rightarrow> Inl (TypeError ''from_numpy'')
      | Some d \<Rightarrow> Inr \<lparr> t_dtype = d, t_shape = nd_shape a, t_data = nd_data a,
                        t_device = cpu \<rparr>)"

fun to_single :: "scalar \<Rightarrow> scalar" where
  "to_single (SFloat x) = SFloat (to_float32 x)"
| "to_single x = x"

definition tensor_float :: "tensor \<Rightarrow> tensor" where
  \<comment> \<open>\<^verbatim>\<open>.float()\<close>\<close>
  "tensor_float t = t \<lparr> t_dtype := TFloat32, t_data := map to_single (t_data t) \<rparr>"

definition tensor_to :: "device \<Rightarrow> tensor \<Rightarrow> tensor" where
  \<comment> \<open>\<^verbatim>\<open>.to(device)\<close>\<close>
  "tensor_to d t = t \<lparr> t_device := d \<rparr>"

definition coerce_list :: "env \<Rightarrow> pyval \<Rightarrow> error + pyval" where
  \<comment> \<open>\<^verbatim>\<open>if type(input_) is list: input_ = np.array(input_)\<close>\<close>
  "coerce_list en v =
     (case v of
        VList xs \<Rightarrow> (case np_array en xs of Inl e \<Rightarrow> Inl e | Inr a \<Rightarrow> Inr (VNdarray a))
      | _ \<Rightarrow> Inr v)"

definition convert_array :: "env \<Rightarrow> 's executor \<Rightarrow> ndarray \<Rightarrow> error + tensor" where
  \<comment> \<open>the body of \<^verbatim>\<open>if type(input_) is np.ndarray:\<close>\<close>
  "convert_array en ex a =
     (if kind (nd_dtype a) \<in> set (SUPPORTED_STRING_TYPES en) then
        (case max_string_length ex of
           None \<Rightarrow> Inl StringLengthAssertion
         | Some n \<Rightarrow> (case from_strings_to_ints en a n of
                        Inl e \<Rightarrow> Inl e
                      | Inr a' \<Rightarrow> from_numpy a'))
      else if kind (nd_dtype a) = CHR ''M'' then from_numpy (datetime_to_seconds a)
      else from_numpy a)"

definition classify :: "env \<Rightarrow> 's executor \<Rightarrow> string \<Rightarrow> pyval \<Rightarrow> error + tensor" where
  \<comment> \<open>\<^verbatim>\<open>if type(input_) is np.ndarray: ... elif type(input_) is not torch.Tensor: raise\<close>\<close>
  "classify en ex input_name v =
     (case v of
        VNdarray a \<Rightarrow> convert_array en ex a
      | VTensor t \<Rightarrow> Inr t
      | _ \<Rightarrow> Inl (UnsupportedType input_name (py_type v)))"

definition place :: "env \<Rightarrow> tensor \<Rightarrow> tensor" where
  \<comment> \<open>the float64 downcast and the transfer to the device\<close>
  "place en t =
     (let t1 = (if t_dtype t = TFloat64 then tensor_float t else t)
      in case get_device en of
           None \<Rightarrow> t1
         | Some d \<Rightarrow> if dev_type d \<noteq> ''cpu'' then tensor_to d t1 else t1)"

definition convert_input :: "env \<Rightarrow> 's executor \<Rightarrow> string \<Rightarrow> pyval \<Rightarrow> error + tensor" where
  \<comment> \<open>one round of the loop over \<^verbatim>\<open>self._input_names\<close>, up to the binding\<close>
  "convert_input en ex input_name v =
     (case coerce_list en v of
        Inl e \<Rightarrow> Inl e
      | Inr v1 \<Rightarrow> (case classify en ex input_name v1 of
                     Inl e \<Rightarrow> Inl e
                   | Inr t \<Rightarrow> Inr (place en t)))"

fun bind_inputs ::
  "env \<Rightarrow> 's executor \<Rightarrow> pyval list \<Rightarrow> string list \<Rightarrow> nat \<Rightarrow> variable_map \<Rightarrow> error + variable_map" where
  \<comment> \<open>\<^verbatim>\<open>for i, input_name in enumerate(self._input_names): ...\<close>\<close>
  "bind_inputs en ex inps [] i vm = Inr vm"
| "bind_inputs en ex inps (input_name # rest) i vm =
     (if i < length inps then
        (case convert_input en ex input_name (inps ! i) of
           Inl e \<Rightarrow> Inl e
         | Inr t \<Rightarrow> bind_inputs en ex inps rest (Suc i) (vm(input_name \<mapsto> VTensor t)))
      else Inl IndexError)"

definition bound_inputs :: "env \<Rightarrow> 's executor \<Rightarrow> pyval list \<Rightarrow> error + variable_map" where
  \<comment> \<open>\<^verbatim>\<open>forward\<close> up to the end of the input loop\<close>
  "bound_inputs en ex inps =
     (case arity_condition en ex inps of
        Inl e \<Rightarrow> Inl e
      | Inr False \<Rightarrow> Inl (ArityAssertion (input_names ex))
      | Inr True \<Rightarrow>
          (case select_inputs en inps of
             Inl e \<Rightarrow> Inl e
           | Inr inps' \<Rightarrow> bind_inputs en ex inps' (input_names ex) 0 Map.empty))"


subsection \<open>Evaluating the operators\<close>

fun lookup_vars :: "variable_map \<Rightarrow> string list \<Rightarrow> error + pyval list" where
  \<comment> \<open>\<^verbatim>\<open>(variable_map[name] for name in names)\<close>, consumed in order\<close>
  "lookup_vars vm [] = Inr []"
| "lookup_vars vm (name # names) =
     (case vm name of
        None \<Rightarrow> Inl (KeyError name)
      | Some v \<Rightarrow> (case lookup_vars vm names of
                     Inl e \<Rightarrow> Inl e
                   | Inr vs \<Rightarrow> Inr (v # vs)))"

definition getitem :: "env \<Rightarrow> pyval \<Rightarrow> nat \<Rightarrow> error + pyval" where
  \<comment> \<open>\<^verbatim>\<open>outputs[i]\<close>\<close>
  "getitem en v i =
     (case v of
        VList xs \<Rightarrow> if i < length xs then Inr (xs ! i) else Inl IndexError
      | VTuple xs \<Rightarrow> if i < length xs then Inr (xs ! i) else Inl IndexError
      | _ \<Rightarrow> object_getitem en v i)"

fun bind_outputs ::
  "env \<Rightarrow> pyval \<Rightarrow> string list \<Rightarrow> nat \<Rightarrow> variable_map \<Rightarrow> error + variable_map" where
  \<comment> \<open>\<^verbatim>\<open>for i, output_name in enumerate(operator.outputs): variable_map[output_name] = outputs[i]\<close>\<close>
  "bind_outputs en outs [] i vm = Inr vm"
| "bind_outputs en outs (output_name # rest) i vm =
     (case getitem en outs i of
        Inl e \<Rightarrow> Inl e
      | Inr v \<Rightarrow> bind_outputs en outs rest (Suc i) (vm(output_name \<mapsto> v)))"

definition run_operator ::
  "env \<Rightarrow> 's module \<Rightarrow> variable_map \<Rightarrow> 's \<Rightarrow> (error + variable_map) \<times> 's" where
  "run_operator en md vm s =
     (case lookup_vars vm (m_inputs md) of
        Inl e \<Rightarrow> (Inl e, s)
      | Inr args \<Rightarrow>
          (case m_call md args s of
             (Inl e, s') \<Rightarrow> (Inl e, s')
           | (Inr outs, s') \<Rightarrow>
               if length (m_outputs md) = 1 then (Inr (vm(m_outputs md ! 0 \<mapsto> outs)), s')
               else (bind_outputs en outs (m_outputs md) 0 vm, s')))"

fun run_operators ::
  "env \<Rightarrow> 's module list \<Rightarrow> variable_map \<Rightarrow> 's \<Rightarrow> (error + variable_map) \<times> 's" where
  \<comment> \<open>\<^verbatim>\<open>for operator in self._operators: ...\<close>\<close>
  "run_operators en [] vm s = (Inr vm, s)"
| "run_operators en (md # mds) vm s =
     (case run_operator en md vm s of
        (Inl e, s') \<Rightarrow> (Inl e, s')
      | (Inr vm', s') \<Rightarrow> run_operators en mds vm' s')"

subsection \<open>Assembling the output\<close>

definition assemble_output :: "'s executor \<Rightarrow> variable_map \<Rightarrow> error + pyval" where
  "assemble_output ex vm =
     (if length (output_names ex) = 1 then
        (case vm (output_names ex ! 0) of
           None \<Rightarrow> Inl (KeyError (output_names ex ! 0))
         | Some v \<Rightarrow> Inr v)
      else
        (case lookup_vars vm (output_names ex) of
           Inl e \<Rightarrow> Inl e
         | Inr vs \<Rightarrow> Inr (VTuple vs)))"

subsection \<open>\<^verbatim>\<open>forward\<close>\<close>

text \<open>
  The two \<^verbatim>\<open>print\<close> calls and the \<^verbatim>\<open>torch.no_grad()\<close> scope change nothing that
  \<^verbatim>\<open>forward\<close> returns and are left out; assertions are taken as enabled.
  \<open>final_map\<close> is the symbol table after the last operator, \<open>forward\<close> the value
  returned from it.
\<close>

definition final_map ::
  "env \<Rightarrow> 's executor \<Rightarrow> pyval list \<Rightarrow> 's \<Rightarrow> (error + variable_map) \<times> 's" where
  "final_map en ex inps s =
     (case bound_inputs en ex inps of
        Inl e \<Rightarrow> (Inl e, s)
      | Inr vm \<Rightarrow> run_operators en (operators ex) vm s)"

definition forward ::
  "env \<Rightarrow> 's executor \<Rightarrow> pyval list \<Rightarrow> 's \<Rightarrow> (error + pyval) \<times> 's" where
  "forward en ex inps s =
     (case final_map en ex inps s of
        (Inl e, s') \<Rightarrow> (Inl e, s')
      | (Inr vm, s') \<Rightarrow> (assemble_output ex vm, s'))"

section \<open>Vocabulary of the properties\<close>

text \<open>
  \<open>matches md ops name\<close>: some operator has, on the side \<open>md\<close>, a variable whose raw
  name is \<open>name\<close>. \<open>first_match k vs\<close>: the full name of the first variable of \<open>vs\<close>
  with raw name \<open>k\<close>. \<open>resolve_name md ops k\<close>: the full name found for \<open>k\<close> by a
  scan of \<open>ops\<close> from the front. \<open>producers ops name\<close>: the operators with an output
  of raw name \<open>name\<close>, in topological order.
\<close>

definition name_inv :: "name_map \<Rightarrow> string list \<Rightarrow> bool" where
  "name_inv m names \<longleftrightarrow> distinct (map fst m) \<and> fst ` set m \<subseteq> set names"

definition first_match :: "string \<Rightarrow> variable list \<Rightarrow> string option" where
  "first_match k vs = map_option full_name (find (\<lambda>v. raw_name v = k) vs)"

definition resolve_name :: "string \<Rightarrow> operator list \<Rightarrow> string \<Rightarrow> string option" where
  "resolve_name md ops k =
     (case find (\<lambda>op. \<exists>v \<in> set (side md op). raw_name v = k) ops of
        None \<Rightarrow> None
      | Some op \<Rightarrow> first_match k (side md op))"

definition matches :: "string \<Rightarrow> operator list \<Rightarrow> string \<Rightarrow> bool" where
  "matches md ops name \<longleftrightarrow> (\<exists>op \<in> set ops. \<exists>v \<in> set (side md op). raw_name v = name)"

definition producers :: "operator list \<Rightarrow> string \<Rightarrow> operator list" where
  "producers ops name = filter (\<lambda>op. \<exists>v \<in> set (outputs op). raw_name v = name) ops"

subsection \<open>Example graph\<close>

text \<open>
  Two operators in topological order; both produce the raw name \<open>y\<close>, under the
  full names \<open>y1\<close> and \<open>y2\<close>.
\<close>

definition demo_ops :: "operator list" where
  "demo_ops =
     [\<lparr> op_full_name = ''op1'',
         inputs = [\<lparr> raw_name = ''x'', full_name = ''x0'' \<rparr>],
         outputs = [\<lparr> raw_name = ''y'', full_name = ''y1'' \<rparr>] \<rparr>,
      \<lparr> op_full_name = ''op2'',
         inputs = [\<lparr> raw_name = ''y'', full_name = ''y1'' \<rparr>],
         outputs = [\<lparr> raw_name = ''y'', full_name = ''y2'' \<rparr>] \<rparr>]"

definition demo_modules :: "string \<rightharpoonup> unit module" where
  "demo_modules =
     [''op1'' \<mapsto> \<lparr> m_inputs = [''x0''], m_outputs = [''y1''],
                   m_call = (\<lambda>args s. (Inr (VTuple args), s)) \<rparr>,
      ''op2'' \<mapsto> \<lparr> m_inputs = [''y1''], m_outputs = [''y2''],
                   m_call = (\<lambda>args s. (Inr (VTuple args), s)) \<rparr>]"

definition demo_executor :: "unit executor" where
  "demo_executor =
     \<lparr> input_names = [''x0''], output_names = [''y2''],
       operators = [the (demo_modules ''op1''), the (demo_modules ''op2'')],
       max_string_length = None, check_dataframe_to_array = None \<rparr>"

section \<open>Properties of name resolution\<close>

lemma map_of_record_name:
  "map_of (record_name i m name) k =
     (case map_of m k of Some v \<Rightarrow> Some v
      | None \<Rightarrow> if k = name \<and> raw_name i = name then Some (full_name i) else None)"
  by (auto simp: record_name_def map_add_def split: option.splits)

lemma map_of_scan_variable:
  "map_of (scan_variable names m i) k =
     (case map_of m k of Some v \<Rightarrow> Some v
      | None \<Rightarrow> if k = raw_name i \<and> k \<in> set names then Some (full_name i) else None)"
  unfolding scan_variable_def
proof (induction names arbitrary: m)
  case Nil then show ?case by (simp split: option.splits)
next
  case (Cons n ns)
  show ?case by (auto simp: Cons.IH map_of_record_name split: option.splits)
qed

lemma map_of_foldl_scan_variable:
  "map_of (foldl (scan_variable names) m vs) k =
     (case map_of m k of Some v \<Rightarrow> Some v
      | None \<Rightarrow> if k \<in> set names then first_match k vs else None)"
proof (induction vs arbitrary: m)
  case Nil then show ?case by (simp add: first_match_def split: option.splits)
next
  case (Cons v vs)
  show ?case by (auto simp: Cons.IH map_of_scan_variable first_match_def split: option.splits)
qed

lemma map_of_scan_operator:
  "map_of (scan_operator md names m op) k =
     (case map_of m k of Some v \<Rightarrow> Some v
      | None \<Rightarrow> if k \<in> set names then first_match k (side md op) else None)"
  by (simp add: scan_operator_def map_of_foldl_scan_variable)

lemma inv_record_name:
  "name_inv m names \<Longrightarrow> name \<in> set names \<Longrightarrow> name_inv (record_name i m name) names"
  by (auto simp: name_inv_def record_name_def map_of_eq_None_iff)

lemma inv_foldl_record_name:
  "name_inv m names \<Longrightarrow> set ns \<subseteq> set names \<Longrightarrow> name_inv (foldl (record_name i) m ns) names"
  by (induction ns arbitrary: m) (auto simp: inv_record_name)

lemma inv_scan_variable: "name_inv m names \<Longrightarrow> name_inv (scan_variable names m i) names"
  by (simp add: scan_variable_def inv_foldl_record_name)

lemma inv_foldl_scan_variable:
  "name_inv m names \<Longrightarrow> name_inv (foldl (scan_variable names) m vs) names"
  by (induction vs arbitrary: m) (auto simp: inv_scan_variable)

lemma inv_scan_operator: "name_inv m names \<Longrightarrow> name_inv (scan_operator md names m op) names"
  by (simp add: scan_operator_def inv_foldl_scan_variable)

lemma inv_full:
  assumes "name_inv m names" and "length m = length names"
  shows "fst ` set m = set names"
proof -
  have "card (fst ` set m) = length m"
    using assms(1) by (metis name_inv_def distinct_card length_map set_map)
  moreover have "card (set names) \<le> length names" by (rule card_length)
  ultimately have "card (set names) \<le> card (fst ` set m)" using assms(2) by simp
  then show ?thesis
    using assms(1) by (simp add: name_inv_def card_seteq)
qed

lemma first_match_None_iff:
  "first_match k vs = None \<longleftrightarrow> (\<forall>v \<in> set vs. raw_name v \<noteq> k)"
  by (auto simp: first_match_def find_None_iff)

lemma resolve_name_Cons:
  "resolve_name md (op # ops) k =
     (case first_match k (side md op) of Some f \<Rightarrow> Some f | None \<Rightarrow> resolve_name md ops k)"
proof (cases "first_match k (side md op)")
  case None
  then show ?thesis
    using first_match_None_iff[of k "side md op"] by (simp add: resolve_name_def)
next
  case (Some f)
  then have "\<exists>v \<in> set (side md op). raw_name v = k"
    using first_match_None_iff[of k "side md op"] by auto
  then show ?thesis using Some by (simp add: resolve_name_def)
qed

lemma map_of_scan_operators:
  "name_inv m names \<Longrightarrow>
   map_of (scan_operators md names ops m) k =
     (case map_of m k of Some v \<Rightarrow> Some v
      | None \<Rightarrow> if k \<in> set names then resolve_name md ops k else None)"
proof (induction ops arbitrary: m)
  case Nil then show ?case by (simp add: resolve_name_def split: option.splits)
next
  case (Cons op ops)
  let ?m' = "scan_operator md names m op"
  have inv': "name_inv ?m' names" using Cons.prems by (rule inv_scan_operator)
  show ?case
  proof (cases "length ?m' = length names")
    case True
    have full: "fst ` set ?m' = set names" using inv' True by (rule inv_full)
    have "k \<in> set names \<Longrightarrow> map_of ?m' k \<noteq> None"
      using full by (simp add: map_of_eq_None_iff)
    then show ?thesis using True
      by (auto simp: Let_def map_of_scan_operator resolve_name_Cons split: option.splits)
  next
    case False
    then show ?thesis
      by (auto simp: Let_def Cons.IH[OF inv'] map_of_scan_operator resolve_name_Cons
               split: option.splits)
  qed
qed

lemma inv_scan_operators:
  "name_inv m names \<Longrightarrow> name_inv (scan_operators md names ops m) names"
  by (induction ops arbitrary: m) (auto simp: Let_def inv_scan_operator)

lemma map_of_scan_all:
  "map_of (scan_operators md names ops []) k =
     (if k \<in> set names then resolve_name md ops k else None)"
  using map_of_scan_operators[of "[]" names md ops k] by (simp add: name_inv_def)

lemma resolve_name_None_iff:
  "resolve_name md ops k = None \<longleftrightarrow> (\<forall>op \<in> set ops. \<forall>v \<in> set (side md op). raw_name v \<noteq> k)"
  by (induction ops) (auto simp: resolve_name_Cons first_match_None_iff resolve_name_def split: option.splits)

lemma scan_all_empty_iff:
  "scan_operators md names ops [] = [] \<longleftrightarrow> (\<forall>k \<in> set names. resolve_name md ops k = None)"
proof -
  have "scan_operators md names ops [] = [] \<longleftrightarrow> (\<forall>k. map_of (scan_operators md names ops []) k = None)"
    by (cases "scan_operators md names ops []") (auto simp: fun_eq_iff)
  then show ?thesis by (auto simp: map_of_scan_all)
qed

lemma lookup_names_Inr:
  "(\<forall>n \<in> set names. map_of m n \<noteq> None) \<Longrightarrow>
   lookup_names m names = Inr (map (\<lambda>n. the (map_of m n)) names)"
  by (induction names) auto

lemma lookup_names_Inl:
  "n \<in> set names \<Longrightarrow> map_of m n = None \<Longrightarrow>
   \<exists>n'. lookup_names m names = Inl (KeyError n') \<and> n' \<in> set names \<and> map_of m n' = None"
  by (induction names) (auto split: option.splits sum.splits)

lemma resolve_name_None_matches: "resolve_name md ops k = None \<longleftrightarrow> \<not> matches md ops k"
  by (simp add: resolve_name_None_iff matches_def)

lemma matches_rev: "matches md (rev ops) k = matches md ops k"
  by (simp add: matches_def)

lemma fix_var_naming_no_match:
  assumes "\<not> (\<exists>n \<in> set names. matches md ops n)"
  shows "fix_var_naming ops names md = Inr names"
proof -
  have "scan_operators md names ops [] = []"
    using assms by (simp add: scan_all_empty_iff resolve_name_None_matches)
  then show ?thesis by (simp add: fix_var_naming_def)
qed

lemma lookup_names_find:
  "lookup_names m names =
     (case find (\<lambda>n. map_of m n = None) names of
        Some u \<Rightarrow> Inl (KeyError u)
      | None \<Rightarrow> Inr (map (\<lambda>n. the (map_of m n)) names))"
  by (induction names) (auto split: option.splits sum.splits)

lemma fix_var_naming_some_match:
  assumes "\<exists>n \<in> set names. matches md ops n"
  shows "fix_var_naming ops names md =
     (case find (\<lambda>n. \<not> matches md ops n) names of
        Some u \<Rightarrow> Inl (KeyError u)
      | None \<Rightarrow> Inr (map (\<lambda>n. the (resolve_name md ops n)) names))"
proof -
  let ?m = "scan_operators md names ops []"
  have ne: "?m \<noteq> []"
    using assms by (simp add: scan_all_empty_iff resolve_name_None_matches)
  have eq: "\<And>n. n \<in> set names \<Longrightarrow> map_of ?m n = resolve_name md ops n"
    by (simp add: map_of_scan_all)
  have f: "find (\<lambda>n. map_of ?m n = None) names = find (\<lambda>n. \<not> matches md ops n) names"
    by (rule find_cong) (simp_all add: eq resolve_name_None_matches)
  have g: "map (\<lambda>n. the (map_of ?m n)) names = map (\<lambda>n. the (resolve_name md ops n)) names"
    by (rule map_cong) (simp_all add: eq)
  show ?thesis unfolding fix_var_naming_def Let_def lookup_names_find f g using ne by simp
qed

text \<open>
  Claim C4. When no declared name equals a raw name on the scanned side of any
  operator, the resolver returns the declared names unchanged. When some declared
  name matches and some declared name never does, the resolver fails with the
  missing-key error for the first declared name that never matches, and so does the
  construction of the executor, on the input side and (once the input names have
  resolved) on the output side.
\<close>
theorem resolver_fallback_or_missing_key:
  "(\<not> (\<exists>n \<in> set names. matches md ops n) \<longrightarrow> fix_var_naming ops names md = Inr names) \<and>
   ((\<exists>n \<in> set names. matches md ops n) \<and> find (\<lambda>n. \<not> matches md ops n) names = Some u \<longrightarrow>
      fix_var_naming ops names md = Inl (KeyError u)) \<and>
   ((\<exists>n \<in> set names. matches ''input'' ops n) \<and>
      find (\<lambda>n. \<not> matches ''input'' ops n) names = Some u \<longrightarrow>
      executor_init K names names_out operator_map ops extra_config = Inl (KeyError u)) \<and>
   ((\<exists>n \<in> set names. matches ''output'' ops n) \<and>
      find (\<lambda>n. \<not> matches ''output'' ops n) names = Some u \<and>
      fix_var_naming ops names_in ''input'' = Inr ins \<longrightarrow>
      executor_init K names_in names operator_map ops extra_config = Inl (KeyError u))"
proof (intro conjI impI)
  assume "\<not> (\<exists>n \<in> set names. matches md ops n)"
  then show "fix_var_naming ops names md = Inr names" by (rule fix_var_naming_no_match)
next
  assume a: "(\<exists>n \<in> set names. matches md ops n) \<and> find (\<lambda>n. \<not> matches md ops n) names = Some u"
  then show "fix_var_naming ops names md = Inl (KeyError u)"
    using fix_var_naming_some_match[of names md ops] by simp
next
  assume a: "(\<exists>n \<in> set names. matches ''input'' ops n) \<and>
      find (\<lambda>n. \<not> matches ''input'' ops n) names = Some u"
  then have "fix_var_naming ops names ''input'' = Inl (KeyError u)"
    using fix_var_naming_some_match[of names "''input''" ops] by simp
  then show "executor_init K names names_out operator_map ops extra_config = Inl (KeyError u)"
    by (simp add: executor_init_def)
next
  assume a: "(\<exists>n \<in> set names. matches ''output'' ops n) \<and>
      find (\<lambda>n. \<not> matches ''output'' ops n) names = Some u \<and>
      fix_var_naming ops names_in ''input'' = Inr ins"
  then have "fix_var_naming (rev ops) names ''output'' = Inl (KeyError u)"
    using fix_var_naming_some_match[of names "''output''" "rev ops"] by (simp add: matches_rev)
  then show "executor_init K names_in names operator_map ops extra_config = Inl (KeyError u)"
    using a by (simp add: executor_init_def)
qed

theorem resolver_fallback_or_missing_key_witness:
  "\<not> (\<exists>n \<in> set [''a'']. matches ''input'' demo_ops n) \<and>
   fix_var_naming demo_ops [''a''] ''input'' = Inr [''a''] \<and>
   (\<exists>n \<in> set [''x'', ''q'']. matches ''input'' demo_ops n) \<and>
   find (\<lambda>n. \<not> matches ''input'' demo_ops n) [''x'', ''q''] = Some ''q'' \<and>
   fix_var_naming demo_ops [''x'', ''q''] ''input'' = Inl (KeyError ''q'') \<and>
   executor_init ''max_string_length'' [''x'', ''q''] [''y''] Map.empty demo_ops Map.empty
     = (Inl (KeyError ''q'') :: error + unit executor)"
proof -
  have a: "\<not> (\<exists>n \<in> set [''a'']. matches ''input'' demo_ops n)"
    by (simp add: matches_def demo_ops_def side_def)
  have b: "\<exists>n \<in> set [''x'', ''q'']. matches ''input'' demo_ops n"
    by (simp add: matches_def demo_ops_def side_def)
  have c: "find (\<lambda>n. \<not> matches ''input'' demo_ops n) [''x'', ''q''] = Some ''q''"
    by (simp add: matches_def demo_ops_def side_def)
  show ?thesis
    using a b c
      resolver_fallback_or_missing_key[of "[''a'']" "''input''" demo_ops]
      resolver_fallback_or_missing_key[of "[''x'', ''q'']" "''input''" demo_ops "''q''"
        "''max_string_length''" "[''y'']" Map.empty Map.empty]
    by blast
qed
lemma find_rev:
  "find P (rev xs) = (if filter P xs = [] then None else Some (last (filter P xs)))"
proof (induction xs rule: rev_induct)
  case Nil then show ?case by simp
next
  case (snoc x xs) then show ?case by simp
qed

lemma resolve_name_rev_output:
  assumes "matches ''output'' ops k"
  shows "producers ops k \<noteq> [] \<and>
         resolve_name ''output'' (rev ops) k = first_match k (outputs (last (producers ops k)))"
proof -
  have ne: "producers ops k \<noteq> []"
    using assms by (auto simp: producers_def matches_def side_def filter_empty_conv)
  then show ?thesis
    by (simp add: resolve_name_def find_rev side_def producers_def)
qed

text \<open>
  Claim C6. The output names are resolved on the reversed operator sequence. When the
  executor is constructed and a declared output name is the raw name of an output of
  several operators, the canonical name recorded for it is the one declared by the
  last of these operators in topological order (the first output of that operator
  with this raw name).
\<close>
theorem output_resolution_prefers_last_producer:
  assumes "executor_init K names_in names_out operator_map ops extra_config = Inr ex"
    and "i < length names_out"
    and "matches ''output'' ops (names_out ! i)"
  shows "length (output_names ex) = length names_out \<and>
         producers ops (names_out ! i) \<noteq> [] \<and>
         first_match (names_out ! i) (outputs (last (producers ops (names_out ! i))))
           = Some (output_names ex ! i)"
proof -
  let ?k = "names_out ! i"
  have kin: "?k \<in> set names_out" using assms(2) by simp
  obtain outs where outs: "fix_var_naming (rev ops) names_out ''output'' = Inr outs"
    and ex: "output_names ex = outs"
    using assms(1) by (auto simp: executor_init_def split: sum.splits)
  have m: "\<exists>n \<in> set names_out. matches ''output'' (rev ops) n"
    using kin assms(3) by (auto simp: matches_rev)
  have none: "find (\<lambda>n. \<not> matches ''output'' (rev ops) n) names_out = None"
    using outs fix_var_naming_some_match[OF m] by (auto split: option.splits)
  have outs_eq: "outs = map (\<lambda>n. the (resolve_name ''output'' (rev ops) n)) names_out"
    using outs fix_var_naming_some_match[OF m] none by simp
  have r: "resolve_name ''output'' (rev ops) ?k \<noteq> None"
    using assms(3) by (simp add: resolve_name_None_matches matches_rev)
  show ?thesis
    using resolve_name_rev_output[OF assms(3)] r assms(2) by (auto simp: ex outs_eq)
qed

lemma demo_init:
  "executor_init ''max_string_length'' [''x''] [''y''] demo_modules demo_ops Map.empty
     = Inr demo_executor"
  by (simp add: executor_init_def fix_var_naming_def demo_ops_def scan_operator_def side_def
      scan_variable_def record_name_def demo_modules_def demo_executor_def)

theorem output_resolution_prefers_last_producer_witness:
  "executor_init ''max_string_length'' [''x''] [''y''] demo_modules demo_ops Map.empty
     = Inr demo_executor \<and>
   (0::nat) < length [''y''] \<and> matches ''output'' demo_ops ([''y''] ! 0) \<and>
   first_match ([''y''] ! 0) (outputs (last (producers demo_ops ([''y''] ! 0))))
     = Some (output_names demo_executor ! 0) \<and>
   last (producers demo_ops ''y'') = demo_ops ! 1 \<and>
   output_names demo_executor ! 0 = ''y2''"
proof -
  have m: "matches ''output'' demo_ops ([''y''] ! 0)"
    by (simp add: matches_def demo_ops_def side_def)
  have l: "last (producers demo_ops ''y'') = demo_ops ! 1"
    by (simp add: producers_def demo_ops_def)
  have o: "output_names demo_executor ! 0 = ''y2''"
    by (simp add: demo_executor_def)
  have t: "first_match ([''y''] ! 0) (outputs (last (producers demo_ops ([''y''] ! 0))))
     = Some (output_names demo_executor ! 0)"
    using output_resolution_prefers_last_producer[OF demo_init _ m] by simp
  show ?thesis using demo_init m l o t by simp
qed

end
